theory Spec2Isabelle
  imports Complex_Main "HOL-Library.Product_Lexorder"
begin

section \<open>Errors and results\<close>

text \<open>
  The source reports failures by throwing.  Three kinds of exception can leave the
  functions modelled here: \<open>std::out_of_range\<close> (from \<open>std::string::substr\<close> and the
  numeric conversions), \<open>std::invalid_argument\<close> (from \<open>std::stoi\<close> and \<open>std::stod\<close>)
  and the repository's own \<open>Exception\<close> class, which carries a message.
\<close>

datatype error = OutOfRange | InvalidArgument | Exception string

type_synonym 'a result = "error + 'a"

text \<open>Sequencing: the first exception thrown ends the computation.\<close>

definition bind_r :: "'a result \<Rightarrow> ('a \<Rightarrow> 'b result) \<Rightarrow> 'b result" where
  "bind_r m f = (case m of Inl e \<Rightarrow> Inl e | Inr x \<Rightarrow> f x)"


section \<open>The \<open>size_t\<close> arithmetic of \<open>std::string\<close>\<close>

text \<open>
  Indices are \<open>size_t\<close>, taken to be 64 bits wide: natural numbers below \<open>2 ^ 64\<close>, with
  addition and subtraction wrapping around.  \<open>npos\<close> is the largest value; the searches
  return it when nothing is found, and the source then adds to it or subtracts from it.
\<close>

definition npos :: nat where
  "npos = 2 ^ 64 - 1"

definition sz_add :: "nat \<Rightarrow> nat \<Rightarrow> nat" where
  "sz_add a b = (a + b) mod 2 ^ 64"

definition sz_sub :: "nat \<Rightarrow> nat \<Rightarrow> nat" where
  "sz_sub a b = (a + 2 ^ 64 - b mod 2 ^ 64) mod 2 ^ 64"

primrec first_index :: "('a \<Rightarrow> bool) \<Rightarrow> 'a list \<Rightarrow> nat option" where
  "first_index P [] = None"
| "first_index P (x # xs) = (if P x then Some 0 else map_option Suc (first_index P xs))"

definition last_index :: "('a \<Rightarrow> bool) \<Rightarrow> 'a list \<Rightarrow> nat option" where
  "last_index P xs = map_option (\<lambda>i. length xs - 1 - i) (first_index P (rev xs))"

definition idx :: "nat option \<Rightarrow> nat" where
  "idx r = (case r of None \<Rightarrow> npos | Some i \<Rightarrow> i)"

text \<open>\<open>s.find(c, pos)\<close> for a one-character needle; \<open>npos\<close> when \<open>pos\<close> is past the end.\<close>

definition find_char :: "string \<Rightarrow> char \<Rightarrow> nat \<Rightarrow> nat" where
  "find_char s c pos =
     (if length s < pos then npos
      else idx (map_option (\<lambda>i. pos + i) (first_index (\<lambda>x. x = c) (drop pos s))))"

text \<open>\<open>s.rfind(c)\<close>.\<close>

definition rfind_char :: "string \<Rightarrow> char \<Rightarrow> nat" where
  "rfind_char s c = idx (last_index (\<lambda>x. x = c) s)"

text \<open>\<open>s.find_first_not_of(cs)\<close> and \<open>s.find_last_not_of(cs)\<close>.\<close>

definition find_first_not_of :: "string \<Rightarrow> string \<Rightarrow> nat" where
  "find_first_not_of s cs = idx (first_index (\<lambda>x. x \<notin> set cs) s)"

definition find_last_not_of :: "string \<Rightarrow> string \<Rightarrow> nat" where
  "find_last_not_of s cs = idx (last_index (\<lambda>x. x \<notin> set cs) s)"

text \<open>
  \<open>s.substr(pos, n)\<close> throws \<open>std::out_of_range\<close> when \<open>pos > s.size()\<close> and otherwise
  returns at most \<open>n\<close> characters from \<open>pos\<close> on; \<open>s.substr(pos)\<close> returns all of them.
\<close>

definition substr :: "string \<Rightarrow> nat \<Rightarrow> nat \<Rightarrow> string result" where
  "substr s pos n = (if length s < pos then Inl OutOfRange else Inr (take n (drop pos s)))"

definition substr_from :: "string \<Rightarrow> nat \<Rightarrow> string result" where
  "substr_from s pos = (if length s < pos then Inl OutOfRange else Inr (drop pos s))"


section \<open>\<open>PdfProcessor::trim\<close>\<close>

text \<open>The characters of the literal \<open>" \t\n\r"\<close>.\<close>

definition whitespace :: string where
  "whitespace = [CHR '' '', CHR 0x09, CHR 0x0A, CHR 0x0D]"

text \<open>
  \<open>trim\<close> copies its argument into \<open>result\<close>, cuts \<open>result\<close> at the first
  non-whitespace character unless that index is 0, then looks for the last
  non-whitespace character in the \<^emph>\<open>argument\<close> \<open>str\<close> and cuts \<open>result\<close> after that
  index.
\<close>

definition trim :: "string \<Rightarrow> string result" where
  "trim str =
     (let leading = find_first_not_of str whitespace in
      bind_r (if leading \<noteq> 0 then substr_from str leading else Inr str) (\<lambda>result.
        let end = find_last_not_of str whitespace in
        if end = npos then Inr [] else substr result 0 (sz_add end 1)))"


section \<open>\<open>std::stoi\<close> and \<open>std::stod\<close>\<close>

text \<open>
  Both conversions skip leading whitespace (as \<open>isspace\<close> sees it in the C locale),
  read an optional sign and then the longest run of characters that belongs to a
  number; what follows is ignored.  With no digit to read they throw
  \<open>std::invalid_argument\<close>; \<open>stoi\<close> throws \<open>std::out_of_range\<close> when the value does
  not fit an \<open>int\<close> (32 bits).
\<close>

definition isspace :: "char \<Rightarrow> bool" where
  "isspace c = (c \<in> set [CHR '' '', CHR 0x09, CHR 0x0A, CHR 0x0B, CHR 0x0C, CHR 0x0D])"

definition isdigit :: "char \<Rightarrow> bool" where
  "isdigit c = (48 \<le> (of_char c :: nat) \<and> (of_char c :: nat) \<le> 57)"

definition digits_value :: "string \<Rightarrow> nat" where
  "digits_value ds = foldl (\<lambda>acc c. 10 * acc + (of_char c - 48)) 0 ds"

definition split_sign :: "string \<Rightarrow> bool \<times> string" where
  "split_sign s =
     (case s of
        [] \<Rightarrow> (False, [])
      | c # r \<Rightarrow> if c = CHR ''-'' then (True, r) else if c = CHR ''+'' then (False, r)
                else (False, s))"

definition stoi :: "string \<Rightarrow> int result" where
  "stoi s =
     (let (neg, body) = split_sign (dropWhile isspace s);
          ds = takeWhile isdigit body;
          v = (if neg then - int (digits_value ds) else int (digits_value ds))
      in if ds = [] then Inl InvalidArgument
         else if v < - 2147483648 then Inl OutOfRange
         else if 2147483647 < v then Inl OutOfRange
         else Inr v)"

text \<open>
  \<open>stod\<close> is modelled on decimal notation, \<open>[sign] digits [. digits]\<close>, which is what an
  amount on a statement is.  The result is the exact decimal value read, a rational
  number: the rounding of that value to a \<open>double\<close> is not modelled, and neither are
  the other notations \<open>strtod\<close> accepts (an exponent, hexadecimal digits, \<open>inf\<close>,
  \<open>nan\<close>).
\<close>

definition stod :: "string \<Rightarrow> rat result" where
  "stod s =
     (let (neg, body) = split_sign (dropWhile isspace s);
          ip = takeWhile isdigit body;
          rest = dropWhile isdigit body;
          fp = (case rest of
                  [] \<Rightarrow> []
                | c # r \<Rightarrow> if c = CHR ''.'' then takeWhile isdigit r else []);
          v = (of_nat (digits_value (ip @ fp)) :: rat) / 10 ^ length fp
      in if ip = [] \<and> fp = [] then Inl InvalidArgument
         else Inr (if neg then - v else v))"


section \<open>Transactions\<close>

text \<open>
  Modelled from the spec: the classes \<open>Date\<close> and \<open>Transaction\<close> (their headers are
  not among the sources).  A date is the triple (year, month, day) its constructor is
  given; a transaction has the fields the setters called by \<open>generateTransaction\<close>
  write: date, reference number, amount, name and last four.  A freshly constructed
  transaction has an empty reference number, as the spec says of interest charges,
  for which \<open>setRefNum\<close> is never called.
\<close>

record Date =
  date_year :: int
  date_month :: int
  date_day :: int

record Transaction =
  tx_date :: Date
  tx_refNum :: string
  tx_amount :: rat
  tx_name :: string
  tx_lastFour :: string

definition new_Transaction :: Transaction where
  "new_Transaction =
     \<lparr>tx_date = \<lparr>date_year = 0, date_month = 0, date_day = 0\<rparr>, tx_refNum = [],
      tx_amount = 0, tx_name = [], tx_lastFour = []\<rparr>"


section \<open>\<open>PdfProcessor::generateTransaction\<close>\<close>

text \<open>
  The function works on its own copy of the line and cuts the parsed part off after
  each field.  \<open>REF_NUM_SIZE\<close> is \<open>constants::REF_NUM_SIZE\<close>, whose value is in a header
  that is not among the sources: it is a parameter.  The pointer argument is an option,
  \<open>None\<close> for the null pointer.  \<open>year\<close> is an \<open>int\<close> of 32 bits: \<open>year--\<close> is the
  subtraction in two's complement, which differs from \<open>year - 1\<close> at the least
  \<open>int\<close> only (where C++ leaves the result undefined).
\<close>

definition int_wrap :: "int \<Rightarrow> int" where
  "int_wrap v = (v + 2147483648) mod 4294967296 - 2147483648"

definition generateTransaction ::
  "nat \<Rightarrow> Transaction option \<Rightarrow> string \<Rightarrow> int \<Rightarrow> bool \<Rightarrow> string \<Rightarrow> bool \<Rightarrow> bool
     \<Rightarrow> Transaction result" where
  "generateTransaction REF_NUM_SIZE transaction line year isJanuaryStatement lastFour
       isOldFormat isInterestCharge =
     (case transaction of
        None \<Rightarrow> Inl (Exception ''Null transaction address passed to generateTransaction'')
      | Some t0 \<Rightarrow>
        let t1 = t0\<lparr>tx_lastFour := lastFour\<rparr> in
        bind_r (if \<not> isOldFormat \<and> \<not> isInterestCharge
                then substr_from line
                       (sz_add (find_first_not_of line [CHR '' '', CHR 0x09]) 4)
                else Inr line) (\<lambda>line1.
        let dateIdx = find_char line1 CHR ''/'' 0 in
        bind_r (substr line1 (sz_sub dateIdx 2) 2) (\<lambda>monthStr.
        bind_r (stoi monthStr) (\<lambda>month.
        bind_r (substr line1 (sz_add dateIdx 1) 2) (\<lambda>dayStr.
        bind_r (stoi dayStr) (\<lambda>day.
        let isDecemberTransaction = (month = 12);
            year1 = (if isJanuaryStatement \<and> isDecemberTransaction
                     then int_wrap (year - 1) else year);
            t2 = t1\<lparr>tx_date := \<lparr>date_year = year1, date_month = month, date_day = day\<rparr>\<rparr>
        in
        bind_r (substr_from line1
                  (sz_add (find_char line1 CHR ''/'' (sz_add dateIdx 1)) 3)) (\<lambda>line2.
        bind_r (if \<not> isInterestCharge
                then (let refNumIdx = find_first_not_of line2 [CHR '' ''] in
                      bind_r (substr line2 refNumIdx REF_NUM_SIZE) (\<lambda>refNum.
                      bind_r (substr_from line2 (sz_add refNumIdx REF_NUM_SIZE)) (\<lambda>line3.
                      Inr (t2\<lparr>tx_refNum := refNum\<rparr>, line3))))
                else Inr (t2, line2)) (\<lambda>(t3, line3).
        bind_r (trim line3) (\<lambda>line4.
        let amountIdx = sz_add (rfind_char line4 CHR '' '') 1 in
        bind_r (substr_from line4 amountIdx) (\<lambda>amountStr.
        bind_r (stod (filter (\<lambda>c. c \<noteq> CHR '','') amountStr)) (\<lambda>amount.
        bind_r (substr line4 0 (sz_sub amountIdx 1)) (\<lambda>line5.
        let nameEndIdx = find_last_not_of line5 whitespace in
        bind_r (substr line5 0 (sz_add nameEndIdx 1)) (\<lambda>name.
        Inr (t3\<lparr>tx_amount := amount, tx_name := name\<rparr>))))))))))))))"



section \<open>\<open>PdfProcessor::processPdfs\<close>\<close>

text \<open>
  The header \<open>constants.h\<close> is not among the sources.  What the code takes from it is a
  parameter of the model: the width of a reference number, two names used in messages,
  and the regular expressions, each as the predicate on lines that
  \<open>std::regex_search\<close> or \<open>std::regex_match\<close> computes with it.
\<close>

record constants =
  REF_NUM_SIZE :: nat
  OUTPUT_DIRECTORY :: string
  SKIPPED_LINES_FILE_NAME :: string
  lastFourPattern :: "string \<Rightarrow> bool"
  transactionTitlePattern :: "string \<Rightarrow> bool"
  transactionPattern :: "string \<Rightarrow> bool"
  transactionPatternInterest :: "string \<Rightarrow> bool"
  transactionPatternOld :: "string \<Rightarrow> bool"
  transactionSkip :: "string \<Rightarrow> bool"
  transactionPatternSkippedRelevant :: "string \<Rightarrow> bool"

text \<open>
  The date of a statement is read from the path of its file: the two characters after
  the first backslash are the month, the next two the day, the next two the year.
\<close>

definition fileDate :: "string \<Rightarrow> (string \<times> string \<times> string) result" where
  "fileDate file =
     (let slashIndex = find_char file (CHR 0x5C) 0 in
      bind_r (substr file (sz_add slashIndex 1) 2) (\<lambda>month.
      bind_r (substr file (sz_add slashIndex 3) 2) (\<lambda>day.
      bind_r (substr file (sz_add slashIndex 5) 2) (\<lambda>yy.
      Inr (month, day, ''20'' @ yy)))))"

text \<open>
  The state of the scan: the three locals of the loop over one file, and the two
  members of \<open>PdfProcessor\<close> the loop writes, the list of transactions and the stream
  of skipped lines (its content so far).
\<close>

record scan =
  transactionTitleCount :: nat
  lastFourFound :: bool
  lastFour :: string
  transactions :: "Transaction list"
  skippedLines :: string

definition saveTransaction ::
  "constants \<Rightarrow> string \<Rightarrow> bool \<Rightarrow> scan \<Rightarrow> string \<Rightarrow> bool \<Rightarrow> bool \<Rightarrow> scan result" where
  "saveTransaction K year isJanuaryStatement st line isOldFormat isInterestCharge =
     bind_r (stoi year) (\<lambda>y.
     bind_r (generateTransaction (REF_NUM_SIZE K) (Some new_Transaction) line y
               isJanuaryStatement (lastFour st) isOldFormat isInterestCharge) (\<lambda>transaction.
     Inr (st\<lparr>transactions := transactions st @ [transaction]\<rparr>)))"

definition skipLine :: "scan \<Rightarrow> string \<Rightarrow> scan result" where
  "skipLine st line =
     bind_r (trim line) (\<lambda>trimmed.
     Inr (st\<lparr>skippedLines := skippedLines st @ trimmed @ [CHR 0x0A]\<rparr>))"

text \<open>The body of the \<open>while (std::getline(text, line))\<close> loop.\<close>

definition processLine :: "constants \<Rightarrow> string \<Rightarrow> bool \<Rightarrow> scan \<Rightarrow> string \<Rightarrow> scan result" where
  "processLine K year isJanuaryStatement st line =
     (if \<not> lastFourFound st \<and> lastFourPattern K line then
        bind_r (substr line (sz_add (rfind_char line CHR '' '') 1) 4) (\<lambda>digits.
        Inr (st\<lparr>lastFour := digits, lastFourFound := True\<rparr>))
      else if transactionTitleCount st < 1 then
        (if transactionTitlePattern K line
         then Inr (st\<lparr>transactionTitleCount := sz_add (transactionTitleCount st) 1\<rparr>)
         else Inr st)
      else if transactionPattern K line then
        (if \<not> transactionSkip K line
         then saveTransaction K year isJanuaryStatement st line False False
         else skipLine st line)
      else if transactionPatternInterest K line then
        (if \<not> transactionSkip K line
         then saveTransaction K year isJanuaryStatement st line False True
         else skipLine st line)
      else if transactionPatternOld K line then
        (if \<not> transactionSkip K line
         then saveTransaction K year isJanuaryStatement st line True False
         else skipLine st line)
      else if transactionPatternSkippedRelevant K line then skipLine st line
      else Inr st)"

fun processLines :: "constants \<Rightarrow> string \<Rightarrow> bool \<Rightarrow> scan \<Rightarrow> string list \<Rightarrow> scan result" where
  "processLines K year isJanuaryStatement st [] = Inr st"
| "processLines K year isJanuaryStatement st (line # rest) =
     bind_r (processLine K year isJanuaryStatement st line) (\<lambda>st'.
     processLines K year isJanuaryStatement st' rest)"

text \<open>
  A document is what poppler gives: \<open>None\<close> when the file cannot be loaded, otherwise
  its pages, each \<open>None\<close> when \<open>create_page\<close> fails and otherwise the lines of its text.
\<close>

type_synonym page = "string list option"

type_synonym document = "page list option"

fun processPages :: "constants \<Rightarrow> string \<Rightarrow> bool \<Rightarrow> scan \<Rightarrow> page list \<Rightarrow> scan result" where
  "processPages K year isJanuaryStatement st [] = Inr st"
| "processPages K year isJanuaryStatement st (currentPage # rest) =
     (case currentPage of
        None \<Rightarrow> Inl (Exception ''Could not load page with poppler'')
      | Some text \<Rightarrow>
          bind_r (processLines K year isJanuaryStatement st text) (\<lambda>st'.
          processPages K year isJanuaryStatement st' rest))"

definition processFile :: "constants \<Rightarrow> scan \<Rightarrow> string \<times> document \<Rightarrow> scan result" where
  "processFile K st input =
     (let file = fst input in
      bind_r (fileDate file) (\<lambda>(month, day, year).
      let isJanuaryStatement = (month = ''01'') in
      case snd input of
        None \<Rightarrow> Inl (Exception (''Error: Could not open PDF file '' @ file))
      | Some pages \<Rightarrow>
          processPages K year isJanuaryStatement
            (st\<lparr>transactionTitleCount := 0, lastFourFound := False, lastFour := []\<rparr>)
            pages))"

fun processFiles :: "constants \<Rightarrow> scan \<Rightarrow> (string \<times> document) list \<Rightarrow> scan result" where
  "processFiles K st [] = Inr st"
| "processFiles K st (input # rest) =
     bind_r (processFile K st input) (\<lambda>st'. processFiles K st' rest)"

text \<open>
  \<open>processPdfs\<close> itself: \<open>skippedLinesOpened\<close> says whether the stream of skipped lines
  is usable; the state holds the members as they are when the function is entered.
\<close>

definition processPdfs ::
  "constants \<Rightarrow> bool \<Rightarrow> scan \<Rightarrow> (string \<times> document) list \<Rightarrow> scan result" where
  "processPdfs K skippedLinesOpened st pdfFiles =
     (if \<not> skippedLinesOpened
      then Inl (Exception (''Could not open '' @ ''./'' @ OUTPUT_DIRECTORY K @ ''/''
                  @ SKIPPED_LINES_FILE_NAME K))
      else processFiles K
             (st\<lparr>skippedLines := skippedLines st @ ''-- SKIPPED LINES --'' @ [CHR 0x0A]\<rparr>)
             pdfFiles)"


section \<open>\<open>PdfProcessor::sortTransactions\<close>\<close>

text \<open>
  Modelled from the spec: \<open>QuickSort::quickSort\<close>, whose header \<open>quick_sort.h\<close> is not
  among the sources.  The spec describes a deterministic comparison sort, a quicksort,
  ascending by date with the original order kept among equal dates.  The first element
  is the pivot; the elements before it in the order go to its left, the others to its
  right, both in their original order.
\<close>

fun quickSort :: "('a \<Rightarrow> 'k::linorder) \<Rightarrow> 'a list \<Rightarrow> 'a list" where
  "quickSort key [] = []"
| "quickSort key (p # xs) =
     quickSort key (filter (\<lambda>x. key x < key p) xs)
     @ p # quickSort key (filter (\<lambda>x. \<not> key x < key p) xs)"

definition dateKey :: "Transaction \<Rightarrow> int \<times> int \<times> int" where
  "dateKey t = (date_year (tx_date t), date_month (tx_date t), date_day (tx_date t))"

definition sortTransactions :: "Transaction list \<Rightarrow> Transaction list" where
  "sortTransactions txs = quickSort dateKey txs"


section \<open>\<open>PdfProcessor::generateCsvFile\<close>\<close>

text \<open>
  The result is the content of the file written.  \<open>csvFileOpened\<close> says whether the
  output stream could be opened, \<open>txs\<close> is the member \<open>transactions\<close>;
  \<open>getCsvFormat\<close> is \<open>Transaction::getCsvFormat\<close>, which
  is not among the sources and is a parameter.
\<close>

definition generateCsvFile ::
  "(Transaction \<Rightarrow> string) \<Rightarrow> bool \<Rightarrow> string \<Rightarrow> Transaction list \<Rightarrow> string result" where
  "generateCsvFile getCsvFormat csvFileOpened fileName txs =
     (if \<not> csvFileOpened then Inl (Exception (''Couldn't open '' @ fileName))
      else if length txs = 0 then Inr ''None''
      else Inr (concat (map (\<lambda>transaction. getCsvFormat transaction @ [CHR 0x0A]) txs)))"



section \<open>Example constants\<close>

text \<open>
  Stand-ins for the regular expressions of \<open>constants.h\<close>, used only where the scanner
  is run on a concrete stream of lines: every general theorem below is stated for
  arbitrary constants.  A last-four line says \<open>Ending in\<close>, the section title is
  \<open>Transactions\<close>, a new-format line starts with four digits and two dates, an
  old-format line with two dates, an interest line names an \<open>INTEREST CHARGE\<close>, and
  the lines to skip are the payments.
\<close>

fun contains :: "string \<Rightarrow> string \<Rightarrow> bool" where
  "contains needle [] = (needle = [])"
| "contains needle (c # cs) =
     (if take (length needle) (c # cs) = needle then True else contains needle cs)"

definition example_constants :: constants where
  "example_constants =
     \<lparr>REF_NUM_SIZE = 9,
      OUTPUT_DIRECTORY = ''output'',
      SKIPPED_LINES_FILE_NAME = ''skipped_lines.txt'',
      lastFourPattern = contains ''Ending in'',
      transactionTitlePattern = contains ''Transactions'',
      transactionPattern =
        (\<lambda>l. list_all isdigit (take 4 l) \<and> take 1 (drop 4 l) = '' ''
              \<and> take 1 (drop 7 l) = ''/'' \<and> take 1 (drop 13 l) = ''/''),
      transactionPatternInterest = contains ''INTEREST CHARGE'',
      transactionPatternOld = (\<lambda>l. take 1 (drop 2 l) = ''/'' \<and> take 1 (drop 8 l) = ''/''),
      transactionSkip = contains ''PAYMENT'',
      transactionPatternSkippedRelevant = contains ''$''\<rparr>"

text \<open>The state in which the scan of a statement starts.\<close>

definition new_scan :: "Transaction list \<Rightarrow> string \<Rightarrow> scan" where
  "new_scan txs skipped =
     \<lparr>transactionTitleCount = 0, lastFourFound = False, lastFour = [],
      transactions = txs, skippedLines = skipped\<rparr>"


section \<open>Properties of \<open>trim\<close>\<close>

lemma npos_value: "npos = 18446744073709551615"
  by (simp add: npos_def)

text \<open>
  C10.  The claim is that \<open>trim\<close> returns normally on every string, with all leading
  and trailing whitespace removed.  The code does not: on the empty string and on a
  string of whitespace only, \<open>find_first_not_of\<close> gives \<open>npos\<close>, which is not 0, and
  \<open>result.substr(npos)\<close> throws \<open>std::out_of_range\<close> before the \<open>end == npos\<close> test
  that was meant for these strings is reached; and on a string with whitespace on both
  sides the end index is taken in the uncut string but applied to the cut one, so
  trailing whitespace survives.
\<close>

theorem trim_fails_C10:
  "trim '''' = Inl OutOfRange
   \<and> trim ''   '' = Inl OutOfRange
   \<and> trim '' a '' = Inr ''a ''
   \<and> trim ''  ab  '' = Inr ''ab  ''"
  by (simp add: trim_def find_first_not_of_def find_last_not_of_def last_index_def idx_def
      whitespace_def substr_def substr_from_def bind_r_def sz_add_def npos_value)

section \<open>Evaluation and sequencing lemmas\<close>

lemmas string_eval = find_first_not_of_def find_last_not_of_def find_char_def rfind_char_def
  last_index_def idx_def substr_def substr_from_def sz_add_def sz_sub_def npos_value
  whitespace_def bind_r_def

lemmas number_eval = stoi_def stod_def split_sign_def isspace_def isdigit_def digits_value_def
  int_wrap_def

lemma bind_r_Inr_iff: "bind_r m f = Inr y \<longleftrightarrow> (\<exists>x. m = Inr x \<and> f x = Inr y)"
  by (cases m) (simp_all add: bind_r_def)

lemma bind_r_Inl: "bind_r (Inl e) f = Inl e"
  by (simp add: bind_r_def)

lemma bind_r_Inr: "bind_r (Inr x) f = f x"
  by (simp add: bind_r_def)

lemma first_index_None: "first_index P xs = None \<longleftrightarrow> (\<forall>x\<in>set xs. \<not> P x)"
  by (induction xs) auto

lemma find_char_absent:
  assumes "c \<notin> set s"
  shows "find_char s c 0 = npos"
proof -
  have "first_index (\<lambda>x. x = c) s = None"
    using assms by (auto simp: first_index_None)
  then show ?thesis by (simp add: find_char_def idx_def)
qed


section \<open>Field extraction\<close>



lemma generateTransaction_lastFour:
  assumes "generateTransaction n tr line y jan lf old intr = Inr t"
  shows "tx_lastFour t = lf"
proof -
  from assms obtain t0 where tr: "tr = Some t0"
    by (cases tr) (simp_all add: generateTransaction_def)
  show ?thesis
  proof (cases intr)
    case True
    with assms show ?thesis
      unfolding generateTransaction_def tr Let_def
      by (clarsimp simp: bind_r_Inr_iff)
  next
    case False
    with assms show ?thesis
      unfolding generateTransaction_def tr Let_def
      by (clarsimp simp: bind_r_Inr_iff)
  qed
qed

text \<open>
  On the line of the spec's example the date is followed by no second date.  The code
  removes the date by cutting three characters after the next \<open>/\<close>; there is none,
  \<open>find\<close> returns \<open>npos\<close>, \<open>npos + 3\<close> wraps around to 2, and the cut leaves the date
  in the line.  The reference number is then read from the date on, whatever the width
  of a reference number is.
\<close>

lemma example_line_refNum:
  assumes "generateTransaction n (Some new_Transaction)
             ''1234   01/15  REF001234   STORE PURCHASE          45.67''
             2024 False ''1234'' False False = Inr t"
  shows "tx_refNum t = take n ''01/15  REF001234   STORE PURCHASE          45.67''"
  using assms
  apply (simp add: generateTransaction_def new_Transaction_def string_eval number_eval)
  apply (auto simp: Let_def split: if_splits sum.splits)
  done

lemma example_line_refNum_never_REF001234:
  assumes "generateTransaction n (Some new_Transaction)
             ''1234   01/15  REF001234   STORE PURCHASE          45.67''
             2024 False ''1234'' False False = Inr t"
  shows "tx_refNum t \<noteq> ''REF001234''"
proof (cases n)
  case 0
  with example_line_refNum [OF assms] show ?thesis by simp
next
  case (Suc k)
  with example_line_refNum [OF assms] show ?thesis by simp
qed

text \<open>
  C1, as stated: with reference numbers nine characters wide, the width of
  \<open>REF001234\<close>, the example line does not give the record of the claim.
\<close>

theorem example_line_C1_counterexample:
  "generateTransaction 9 (Some new_Transaction)
     ''1234   01/15  REF001234   STORE PURCHASE          45.67''
     2024 False ''1234'' False False
   \<noteq> Inr \<lparr>tx_date = \<lparr>date_year = 2024, date_month = 1, date_day = 15\<rparr>,
           tx_refNum = ''REF001234'', tx_amount = 4567 / 100,
           tx_name = ''STORE PURCHASE'', tx_lastFour = ''1234''\<rparr>"
  by (simp add: generateTransaction_def trim_def new_Transaction_def string_eval number_eval)

text \<open>
  C1, amended: with reference numbers nine characters wide, the example line gives the
  date 2024-01-15, the amount 45.67 and the last four 1234 of the claim, but the
  reference number \<open>01/15  RE\<close> and the name \<open>F001234   STORE PURCHASE\<close>; the record of
  the claim is what the line gives when the transaction date is followed by a post
  date, as the code expects.
\<close>

theorem example_line_C1:
  "generateTransaction 9 (Some new_Transaction)
     ''1234   01/15  REF001234   STORE PURCHASE          45.67''
     2024 False ''1234'' False False
   = Inr \<lparr>tx_date = \<lparr>date_year = 2024, date_month = 1, date_day = 15\<rparr>,
           tx_refNum = ''01/15  RE'', tx_amount = 4567 / 100,
           tx_name = ''F001234   STORE PURCHASE'', tx_lastFour = ''1234''\<rparr>
   \<and> generateTransaction 9 (Some new_Transaction)
       ''1234   01/15  01/15  REF001234   STORE PURCHASE          45.67''
       2024 False ''1234'' False False
     = Inr \<lparr>tx_date = \<lparr>date_year = 2024, date_month = 1, date_day = 15\<rparr>,
             tx_refNum = ''REF001234'', tx_amount = 4567 / 100,
             tx_name = ''STORE PURCHASE'', tx_lastFour = ''1234''\<rparr>"
  by (simp add: generateTransaction_def trim_def new_Transaction_def string_eval number_eval)



text \<open>
  C6, as stated: the code expects a second \<open>/\<close> after the date (that of the post date)
  and cuts the line three characters after it.  On a line without it nothing fails:
  the cut wraps around and the record gets the rest of the date in its name.
\<close>

theorem missing_delimiter_C6_counterexample:
  "find_char ''01/31 INTEREST CHARGE ON PURCHASES 12.34'' CHR ''/'' 3 = npos
   \<and> generateTransaction 17 (Some new_Transaction)
       ''01/31 INTEREST CHARGE ON PURCHASES 12.34'' 2024 False ''1234'' False True
     = Inr \<lparr>tx_date = \<lparr>date_year = 2024, date_month = 1, date_day = 31\<rparr>,
             tx_refNum = [], tx_amount = 617 / 50,
             tx_name = ''/31 INTEREST CHARGE ON PURCHASES'', tx_lastFour = ''1234''\<rparr>"
  by (simp add: generateTransaction_def trim_def new_Transaction_def string_eval number_eval)

text \<open>
  C6, amended: on a line with no \<open>/\<close> at all, field extraction fails, with the
  \<open>std::out_of_range\<close> that \<open>substr\<close> throws two characters before \<open>npos\<close>.  (The line
  is shorter than \<open>2 ^ 64 - 3\<close> characters, as every string is.)
\<close>

theorem no_slash_fails_C6:
  assumes "CHR ''/'' \<notin> set line" and "length line < 2 ^ 64 - 3"
  shows "generateTransaction n (Some t0) line y jan lf old intr = Inl OutOfRange"
proof -
  have date: "bind_r (substr l (sz_sub (find_char l CHR ''/'' 0) 2) 2) f = Inl OutOfRange"
    if "CHR ''/'' \<notin> set l" and "length l < 2 ^ 64 - 3" for l and f :: "string \<Rightarrow> Transaction result"
    using that by (simp add: find_char_absent sz_sub_def npos_value substr_def bind_r_def)
  show ?thesis
  proof (cases "\<not> old \<and> \<not> intr")
    case False
    then show ?thesis using assms
      by (auto simp add: generateTransaction_def Let_def bind_r_Inr date)
  next
    case True
    let ?k = "sz_add (find_first_not_of line [CHR '' '', CHR 0x09]) 4"
    show ?thesis
    proof (cases "length line < ?k")
      case far: True
      then show ?thesis using True
        by (simp add: generateTransaction_def Let_def substr_from_def bind_r_Inl)
    next
      case near: False
      have "CHR ''/'' \<notin> set (drop ?k line)"
        using assms(1) by (meson in_set_dropD)
      moreover have "length (drop ?k line) < 2 ^ 64 - 3"
        using assms(2) by simp
      ultimately show ?thesis using True near
        by (simp add: generateTransaction_def Let_def substr_from_def bind_r_Inr date)
    qed
  qed
qed

theorem no_slash_fails_C6_witness:
  "CHR ''/'' \<notin> set ''no date here 1.00''
   \<and> generateTransaction 9 (Some new_Transaction) ''no date here 1.00'' 2024 True ''1234''
       True False = Inl OutOfRange"
proof -
  have a: "CHR ''/'' \<notin> set ''no date here 1.00''" by simp
  have b: "length ''no date here 1.00'' < 2 ^ 64 - 3" by simp
  from no_slash_fails_C6 [OF a b] a show ?thesis by blast
qed


section \<open>The scan of a statement\<close>

lemmas scan_eval = processLine_def saveTransaction_def skipLine_def new_scan_def
  example_constants_def generateTransaction_def trim_def new_Transaction_def

text \<open>
  C2.  The claim is that transaction parsing starts at the second occurrence of the
  section title, which is also what the comment above the test says (\<open>find the second
  instance of the transaction title\<close>, \<open>Skip the 1st instance\<close>).  The test is
  \<open>transactionTitleCount < 1\<close>: after the first line that matches the title the count
  is 1 and the very next line is classified.  A title line followed by a new-format
  line gives the call of \<open>generateTransaction\<close> on that line.
\<close>

theorem first_title_starts_parsing_C2:
  assumes "\<not> lastFourPattern K title" and "transactionTitlePattern K title"
    and "\<not> lastFourPattern K line" and "transactionPattern K line"
    and "\<not> transactionSkip K line"
  shows "processLines K year jan (new_scan txs skipped) [title, line]
         = saveTransaction K year jan
             ((new_scan txs skipped)\<lparr>transactionTitleCount := 1\<rparr>) line False False"
  using assms
  by (simp add: processLine_def new_scan_def bind_r_def sz_add_def
      split: sum.splits)

theorem first_title_starts_parsing_C2_witness:
  "\<not> lastFourPattern example_constants ''Transactions''
   \<and> transactionTitlePattern example_constants ''Transactions''
   \<and> \<not> lastFourPattern example_constants ''1234 01/02 01/03 REF005678 BOOK STORE 12.00''
   \<and> transactionPattern example_constants ''1234 01/02 01/03 REF005678 BOOK STORE 12.00''
   \<and> \<not> transactionSkip example_constants ''1234 01/02 01/03 REF005678 BOOK STORE 12.00''
   \<and> processLines example_constants ''2024'' False (new_scan [] [])
       [''Transactions'', ''1234 01/02 01/03 REF005678 BOOK STORE 12.00'']
     = Inr \<lparr>transactionTitleCount = 1, lastFourFound = False, lastFour = [],
             transactions =
               [\<lparr>tx_date = \<lparr>date_year = 2024, date_month = 1, date_day = 2\<rparr>,
                 tx_refNum = ''REF005678'', tx_amount = 12, tx_name = ''BOOK STORE'',
                 tx_lastFour = []\<rparr>],
             skippedLines = []\<rparr>"
proof -
  have h1: "\<not> lastFourPattern example_constants ''Transactions''"
    by (simp add: example_constants_def)
  have h2: "transactionTitlePattern example_constants ''Transactions''"
    by (simp add: example_constants_def)
  have h3: "\<not> lastFourPattern example_constants
              ''1234 01/02 01/03 REF005678 BOOK STORE 12.00''"
    by (simp add: example_constants_def)
  have h4: "transactionPattern example_constants
              ''1234 01/02 01/03 REF005678 BOOK STORE 12.00''"
    by (simp add: example_constants_def isdigit_def)
  have h5: "\<not> transactionSkip example_constants
              ''1234 01/02 01/03 REF005678 BOOK STORE 12.00''"
    by (simp add: example_constants_def)
  have run: "saveTransaction example_constants ''2024'' False
               ((new_scan [] [])\<lparr>transactionTitleCount := 1\<rparr>)
               ''1234 01/02 01/03 REF005678 BOOK STORE 12.00'' False False
             = Inr \<lparr>transactionTitleCount = 1, lastFourFound = False, lastFour = [],
                 transactions =
                   [\<lparr>tx_date = \<lparr>date_year = 2024, date_month = 1, date_day = 2\<rparr>,
                     tx_refNum = ''REF005678'', tx_amount = 12, tx_name = ''BOOK STORE'',
                     tx_lastFour = []\<rparr>],
                 skippedLines = []\<rparr>"
    by (simp add: scan_eval string_eval number_eval)
  from first_title_starts_parsing_C2 [OF h1 h2 h3 h4 h5, of "''2024''" False "[]" "[]"]
  have "processLines example_constants ''2024'' False (new_scan [] [])
       [''Transactions'', ''1234 01/02 01/03 REF005678 BOOK STORE 12.00'']
     = Inr \<lparr>transactionTitleCount = 1, lastFourFound = False, lastFour = [],
             transactions =
               [\<lparr>tx_date = \<lparr>date_year = 2024, date_month = 1, date_day = 2\<rparr>,
                 tx_refNum = ''REF005678'', tx_amount = 12, tx_name = ''BOOK STORE'',
                 tx_lastFour = []\<rparr>],
             skippedLines = []\<rparr>"
    by (simp only: run)
  with h1 h2 h3 h4 h5 show ?thesis by blast
qed

text \<open>With one directory above the file, the date is the one in the name of the file.\<close>

lemma fileDate_one_backslash:
  "fileDate (''stmts'' @ [CHR 0x5C] @ ''011524.pdf'') = Inr (''01'', ''15'', ''2024'')"
  by (simp add: fileDate_def string_eval)

text \<open>
  C4.  The claim is that the date is read from the name of the file, the part of the
  path after the final separator, whatever the path.  The code looks for the
  \<^emph>\<open>first\<close> backslash of the path.  With one directory above the file the date is
  read as claimed; with two, or with the separator \<open>/\<close>, it is read from the wrong
  place.
\<close>

theorem fileDate_wrong_segment_C4:
  "fileDate (''data'' @ [CHR 0x5C] @ ''stmts'' @ [CHR 0x5C] @ ''011524.pdf'')
     = Inr (''st'', ''mt'', ''20s'' @ [CHR 0x5C])
   \<and> fileDate ''stmts/011524.pdf'' = Inr (''st'', ''mt'', ''20s/'')"
  by (simp add: fileDate_def string_eval)

text \<open>\<open>trim\<close> returns on every string that has a character other than whitespace.\<close>

lemma first_index_Some_ex:
  "\<exists>x\<in>set xs. P x \<Longrightarrow> \<exists>i. first_index P xs = Some i \<and> i < length xs"
  by (induction xs) auto

lemma trim_returns:
  assumes "\<exists>c\<in>set line. c \<notin> set whitespace"
  shows "\<exists>trimmed. trim line = Inr trimmed"
proof -
  from first_index_Some_ex [of line "\<lambda>x. x \<notin> set whitespace"] assms
  obtain i where i: "first_index (\<lambda>x. x \<notin> set whitespace) line = Some i" "i < length line"
    by blast
  then show ?thesis
    by (simp add: trim_def find_first_not_of_def idx_def substr_from_def substr_def
        bind_r_def Let_def)
qed

text \<open>
  C5, as stated: the test for the last-four marker comes before the classification and
  ends the turn of the line.  Inside the transaction section, while the marker has not
  been found, a line that has a transaction shape and matches the skip pattern but
  also the last-four pattern is taken for the marker: no record is built, and nothing
  is written to the log of skipped lines.
\<close>

theorem skipped_line_not_logged_C5_counterexample:
  "transactionPattern example_constants
     ''1234 01/05 01/05 REF005679 PAYMENT Ending in 1234''
   \<and> transactionSkip example_constants
       ''1234 01/05 01/05 REF005679 PAYMENT Ending in 1234''
   \<and> processLine example_constants ''2024'' False
       \<lparr>transactionTitleCount = 1, lastFourFound = False, lastFour = [],
        transactions = [], skippedLines = []\<rparr>
       ''1234 01/05 01/05 REF005679 PAYMENT Ending in 1234''
     = Inr \<lparr>transactionTitleCount = 1, lastFourFound = True, lastFour = ''1234'',
             transactions = [], skippedLines = []\<rparr>"
  by (simp add: processLine_def example_constants_def isdigit_def string_eval)

text \<open>
  C5, amended.  Inside the transaction section (the title count is at least 1), a line
  that matches one of the three transaction shapes and the skip pattern gives no
  record: the list of transactions is as it was.  When the line is not taken for the
  last-four marker (the marker has been found, or the line does not match its pattern)
  and has a character other than whitespace, the line is written, trimmed and followed
  by a newline, to the log of skipped lines.
\<close>

theorem skipped_transaction_line_C5:
  assumes "1 \<le> transactionTitleCount st"
    and "transactionPattern K line \<or> transactionPatternInterest K line
         \<or> transactionPatternOld K line"
    and "transactionSkip K line"
  shows "(\<forall>st'. processLine K year jan st line = Inr st' \<longrightarrow> transactions st' = transactions st)
       \<and> ((lastFourFound st \<or> \<not> lastFourPattern K line)
            \<and> (\<exists>c\<in>set line. c \<notin> set whitespace)
          \<longrightarrow> (\<exists>trimmed. trim line = Inr trimmed
                \<and> processLine K year jan st line
                  = Inr (st\<lparr>skippedLines := skippedLines st @ trimmed @ [CHR 0x0A]\<rparr>)))"
proof (intro conjI allI impI)
  fix st'
  assume "processLine K year jan st line = Inr st'"
  with assms show "transactions st' = transactions st"
    by (auto simp: processLine_def skipLine_def bind_r_Inr_iff split: if_splits)
next
  assume h: "(lastFourFound st \<or> \<not> lastFourPattern K line)
             \<and> (\<exists>c\<in>set line. c \<notin> set whitespace)"
  then obtain trimmed where t: "trim line = Inr trimmed"
    using trim_returns by blast
  have "processLine K year jan st line = skipLine st line"
    using assms h by (auto simp: processLine_def)
  with t show "\<exists>trimmed. trim line = Inr trimmed
                \<and> processLine K year jan st line
                  = Inr (st\<lparr>skippedLines := skippedLines st @ trimmed @ [CHR 0x0A]\<rparr>)"
    by (simp add: skipLine_def bind_r_def)
qed

theorem skipped_transaction_line_C5_witness:
  "processLine example_constants ''2024'' False
     \<lparr>transactionTitleCount = 1, lastFourFound = True, lastFour = ''1234'',
      transactions = [], skippedLines = []\<rparr>
     ''1234 01/05 01/05 REF005679 ONLINE PAYMENT 50.00''
   = Inr \<lparr>transactionTitleCount = 1, lastFourFound = True, lastFour = ''1234'',
           transactions = [],
           skippedLines = ''1234 01/05 01/05 REF005679 ONLINE PAYMENT 50.00'' @ [CHR 0x0A]\<rparr>"
proof -
  let ?st = "\<lparr>transactionTitleCount = 1, lastFourFound = True, lastFour = ''1234'',
      transactions = [], skippedLines = []\<rparr>"
  let ?line = "''1234 01/05 01/05 REF005679 ONLINE PAYMENT 50.00''"
  have h1: "1 \<le> transactionTitleCount ?st" by simp
  have h2: "transactionPattern example_constants ?line
            \<or> transactionPatternInterest example_constants ?line
            \<or> transactionPatternOld example_constants ?line"
    by (simp add: example_constants_def isdigit_def)
  have h3: "transactionSkip example_constants ?line"
    by (simp add: example_constants_def)
  have h4: "(lastFourFound ?st \<or> \<not> lastFourPattern example_constants ?line)
            \<and> (\<exists>c\<in>set ?line. c \<notin> set whitespace)"
    by (simp add: whitespace_def)
  have t: "trim ?line = Inr ?line"
    by (simp add: trim_def string_eval)
  from skipped_transaction_line_C5 [OF h1 h2 h3, of "''2024''" False] h4 t
  show ?thesis by auto
qed

text \<open>
  C7, as stated: the scan for the last-four marker and the scan for the section title
  are independent, and nothing makes the first end before records are built.  In the
  statement below the title comes first: the first record is built with the empty
  string for its last four, the second with the digits of the marker.
\<close>

theorem lastFour_C7_counterexample:
  "map_sum id (\<lambda>st. map tx_lastFour (transactions st))
     (processFile example_constants (new_scan [] [])
        (''stmts'' @ [CHR 0x5C] @ ''011524.pdf'',
         Some [Some [''Transactions'',
                     ''4321 12/28 12/29 REF001234 COFFEE SHOP 4.50'',
                     ''Account Ending in 1234'',
                     ''1234 01/02 01/03 REF005678 BOOK STORE 12.00'']]))
   = Inr [[], ''1234'']"
  by (simp add: processFile_def fileDate_def scan_eval string_eval number_eval isdigit_def)

text \<open>Once the marker has been found, a line leaves it alone.\<close>

lemma processLine_lastFour:
  assumes "lastFourFound st" and "processLine K year jan st line = Inr st'"
  shows "lastFourFound st' \<and> lastFour st' = lastFour st
         \<and> (\<exists>new. transactions st' = transactions st @ new
                   \<and> (\<forall>t\<in>set new. tx_lastFour t = lastFour st))"
proof -
  have save: "lastFourFound s' \<and> lastFour s' = lastFour st
         \<and> (\<exists>new. transactions s' = transactions st @ new
                   \<and> (\<forall>t\<in>set new. tx_lastFour t = lastFour st))"
    if "saveTransaction K year jan st line old intr = Inr s'" for old intr s'
  proof -
    from that obtain y t where
      g: "generateTransaction (REF_NUM_SIZE K) (Some new_Transaction) line y jan (lastFour st)
            old intr = Inr t"
      and s': "s' = st\<lparr>transactions := transactions st @ [t]\<rparr>"
      by (auto simp: saveTransaction_def bind_r_Inr_iff)
    from generateTransaction_lastFour [OF g] s' assms(1) show ?thesis by simp
  qed
  have skip: "lastFourFound s' \<and> lastFour s' = lastFour st
         \<and> (\<exists>new. transactions s' = transactions st @ new
                   \<and> (\<forall>t\<in>set new. tx_lastFour t = lastFour st))"
    if "skipLine st line = Inr s'" for s'
    using that assms(1) by (auto simp: skipLine_def bind_r_Inr_iff)
  have same: "lastFourFound st \<and> lastFour st = lastFour st
         \<and> (\<exists>new. transactions st = transactions st @ new
                   \<and> (\<forall>t\<in>set new. tx_lastFour t = lastFour st))"
    using assms(1) by simp
  have title: "lastFourFound s' \<and> lastFour s' = lastFour st
         \<and> (\<exists>new. transactions s' = transactions st @ new
                   \<and> (\<forall>t\<in>set new. tx_lastFour t = lastFour st))"
    if "st\<lparr>transactionTitleCount := c\<rparr> = s'" for c s'
    using that assms(1) by auto
  from assms show ?thesis
    unfolding processLine_def
    by (simp split: if_splits) (use save skip same title in blast)+
qed

lemma processLines_lastFour:
  assumes "lastFourFound st" and "processLines K year jan st lns = Inr st'"
  shows "lastFourFound st' \<and> lastFour st' = lastFour st
         \<and> (\<exists>new. transactions st' = transactions st @ new
                   \<and> (\<forall>t\<in>set new. tx_lastFour t = lastFour st))"
  using assms
proof (induction lns arbitrary: st)
  case Nil
  then show ?case by simp
next
  case (Cons line rest)
  from Cons.prems(2) obtain s1 where
    one: "processLine K year jan st line = Inr s1"
    and more: "processLines K year jan s1 rest = Inr st'"
    by (auto simp: bind_r_Inr_iff)
  from processLine_lastFour [OF Cons.prems(1) one] obtain new1 where
    s1: "lastFourFound s1" "lastFour s1 = lastFour st"
      "transactions s1 = transactions st @ new1" "\<forall>t\<in>set new1. tx_lastFour t = lastFour st"
    by blast
  from Cons.IH [OF s1(1) more] obtain new2 where
    s2: "lastFourFound st'" "lastFour st' = lastFour s1"
      "transactions st' = transactions s1 @ new2" "\<forall>t\<in>set new2. tx_lastFour t = lastFour s1"
    by blast
  have "transactions st' = transactions st @ (new1 @ new2)"
    using s1(3) s2(3) by simp
  moreover have "\<forall>t\<in>set (new1 @ new2). tx_lastFour t = lastFour st"
    using s1(2,4) s2(4) by auto
  ultimately show ?case using s1(2) s2(1,2) by metis
qed

text \<open>
  C7, amended: from the line on which the marker is found, the last four of the scan
  does not change for the rest of the statement (its remaining pages), and every
  record built from then on carries it.
\<close>

theorem lastFour_fixed_once_found_C7:
  assumes "lastFourFound st" and "processPages K year jan st pages = Inr st'"
  shows "lastFourFound st' \<and> lastFour st' = lastFour st
         \<and> (\<exists>new. transactions st' = transactions st @ new
                   \<and> (\<forall>t\<in>set new. tx_lastFour t = lastFour st))"
  using assms
proof (induction pages arbitrary: st)
  case Nil
  then show ?case by simp
next
  case (Cons currentPage rest)
  from Cons.prems(2) obtain lns s1 where
    page: "currentPage = Some lns"
    and one: "processLines K year jan st lns = Inr s1"
    and more: "processPages K year jan s1 rest = Inr st'"
    by (cases currentPage) (auto simp: bind_r_Inr_iff)
  from processLines_lastFour [OF Cons.prems(1) one] obtain new1 where
    s1: "lastFourFound s1" "lastFour s1 = lastFour st"
      "transactions s1 = transactions st @ new1" "\<forall>t\<in>set new1. tx_lastFour t = lastFour st"
    by blast
  from Cons.IH [OF s1(1) more] obtain new2 where
    s2: "lastFourFound st'" "lastFour st' = lastFour s1"
      "transactions st' = transactions s1 @ new2" "\<forall>t\<in>set new2. tx_lastFour t = lastFour s1"
    by blast
  have "transactions st' = transactions st @ (new1 @ new2)"
    using s1(3) s2(3) by simp
  moreover have "\<forall>t\<in>set (new1 @ new2). tx_lastFour t = lastFour st"
    using s1(2,4) s2(4) by auto
  ultimately show ?case using s1(2) s2(1,2) by metis
qed

theorem lastFour_fixed_once_found_C7_witness:
  "processPages example_constants ''2024'' False
     \<lparr>transactionTitleCount = 1, lastFourFound = True, lastFour = ''1234'',
      transactions = [], skippedLines = []\<rparr>
     [Some [''Account Ending in 9999''], Some [''1234 01/02 01/03 REF005678 BOOK STORE 12.00'']]
   = Inr \<lparr>transactionTitleCount = 1, lastFourFound = True, lastFour = ''1234'',
           transactions =
             [\<lparr>tx_date = \<lparr>date_year = 2024, date_month = 1, date_day = 2\<rparr>,
               tx_refNum = ''REF005678'', tx_amount = 12, tx_name = ''BOOK STORE'',
               tx_lastFour = ''1234''\<rparr>],
           skippedLines = []\<rparr>
   \<and> lastFour \<lparr>transactionTitleCount = 1, lastFourFound = True, lastFour = ''1234'',
           transactions =
             [\<lparr>tx_date = \<lparr>date_year = 2024, date_month = 1, date_day = 2\<rparr>,
               tx_refNum = ''REF005678'', tx_amount = 12, tx_name = ''BOOK STORE'',
               tx_lastFour = ''1234''\<rparr>],
           skippedLines = []\<rparr> = ''1234''"
proof -
  let ?st = "\<lparr>transactionTitleCount = 1, lastFourFound = True, lastFour = ''1234'',
      transactions = [], skippedLines = []\<rparr>"
  have found: "lastFourFound ?st" by simp
  have run: "processPages example_constants ''2024'' False ?st
     [Some [''Account Ending in 9999''], Some [''1234 01/02 01/03 REF005678 BOOK STORE 12.00'']]
   = Inr \<lparr>transactionTitleCount = 1, lastFourFound = True, lastFour = ''1234'',
           transactions =
             [\<lparr>tx_date = \<lparr>date_year = 2024, date_month = 1, date_day = 2\<rparr>,
               tx_refNum = ''REF005678'', tx_amount = 12, tx_name = ''BOOK STORE'',
               tx_lastFour = ''1234''\<rparr>],
           skippedLines = []\<rparr>"
    by (simp add: scan_eval string_eval number_eval isdigit_def)
  from lastFour_fixed_once_found_C7 [OF found run] run show ?thesis by simp
qed


section \<open>The output\<close>

lemma newlines_of_rows:
  assumes "\<forall>t\<in>set txs. CHR 0x0A \<notin> set (fmt t)"
  shows "length (filter (\<lambda>c. c = CHR 0x0A) (concat (map (\<lambda>t. fmt t @ [CHR 0x0A]) txs)))
         = length txs"
  using assms
proof (induction txs)
  case Nil
  then show ?case by simp
next
  case (Cons t txs)
  then have "filter (\<lambda>c. c = CHR 0x0A) (fmt t) = []"
    by (auto simp: filter_empty_conv)
  with Cons show ?case by simp
qed

text \<open>
  C8.  When the output file can be opened: with no transaction its content is \<open>None\<close>
  and nothing else; otherwise it is, for each transaction in order, the text
  \<open>getCsvFormat\<close> gives followed by a newline, which is one line per transaction when
  that text holds no newline.
\<close>

theorem generateCsvFile_content_C8:
  "generateCsvFile fmt True fileName [] = Inr ''None''
   \<and> (txs \<noteq> [] \<longrightarrow>
        generateCsvFile fmt True fileName txs
        = Inr (concat (map (\<lambda>t. fmt t @ [CHR 0x0A]) txs)))
   \<and> (txs \<noteq> [] \<and> (\<forall>t\<in>set txs. CHR 0x0A \<notin> set (fmt t)) \<longrightarrow>
        (\<exists>content. generateCsvFile fmt True fileName txs = Inr content
           \<and> length (filter (\<lambda>c. c = CHR 0x0A) content) = length txs))"
  by (simp add: generateCsvFile_def newlines_of_rows)

theorem generateCsvFile_content_C8_witness:
  "generateCsvFile tx_name True ''out.csv''
     [new_Transaction\<lparr>tx_name := ''A''\<rparr>, new_Transaction\<lparr>tx_name := ''B''\<rparr>]
   = Inr (''A'' @ [CHR 0x0A] @ ''B'' @ [CHR 0x0A])"
  using generateCsvFile_content_C8
    [of tx_name "''out.csv''"
        "[new_Transaction\<lparr>tx_name := ''A''\<rparr>, new_Transaction\<lparr>tx_name := ''B''\<rparr>]"]
  by (simp add: new_Transaction_def)


section \<open>Sorting\<close>

lemma set_quickSort: "set (quickSort key xs) = set xs"
  by (induction key xs rule: quickSort.induct) auto

lemma sorted_quickSort: "sorted (map key (quickSort key xs))"
proof (induction key xs rule: quickSort.induct)
  case (1 key)
  then show ?case by simp
next
  case (2 key p xs)
  then show ?case
    by (auto simp: sorted_append set_quickSort not_less intro: less_imp_le order_trans)
qed

lemma quickSort_sorted: "sorted (map key xs) \<Longrightarrow> quickSort key xs = xs"
proof (induction xs)
  case Nil
  then show ?case by simp
next
  case (Cons p xs)
  then have le: "\<forall>x\<in>set xs. key p \<le> key x" and rest: "sorted (map key xs)"
    by simp_all
  from le have "filter (\<lambda>x. key x < key p) xs = []"
    by (auto simp: filter_empty_conv)
  moreover from le have "filter (\<lambda>x. \<not> key x < key p) xs = xs"
    by (auto simp: filter_id_conv)
  ultimately show ?case using Cons.IH [OF rest] by simp
qed

text \<open>
  C9.  Sorting a list of transactions that is already in ascending order of date gives
  the same list, elements of equal date included; so sorting twice is sorting once.
\<close>

theorem sortTransactions_idempotent_C9:
  "(sorted (map dateKey txs) \<longrightarrow> sortTransactions txs = txs)
   \<and> sortTransactions (sortTransactions txs) = sortTransactions txs"
  by (simp add: sortTransactions_def quickSort_sorted sorted_quickSort)

theorem sortTransactions_idempotent_C9_witness:
  "sorted (map dateKey
     [new_Transaction\<lparr>tx_date := \<lparr>date_year = 2023, date_month = 12, date_day = 28\<rparr>,
                       tx_name := ''A''\<rparr>,
      new_Transaction\<lparr>tx_date := \<lparr>date_year = 2024, date_month = 1, date_day = 2\<rparr>,
                       tx_name := ''B''\<rparr>,
      new_Transaction\<lparr>tx_date := \<lparr>date_year = 2024, date_month = 1, date_day = 2\<rparr>,
                       tx_name := ''C''\<rparr>])
   \<and> sortTransactions
       [new_Transaction\<lparr>tx_date := \<lparr>date_year = 2023, date_month = 12, date_day = 28\<rparr>,
                         tx_name := ''A''\<rparr>,
        new_Transaction\<lparr>tx_date := \<lparr>date_year = 2024, date_month = 1, date_day = 2\<rparr>,
                         tx_name := ''B''\<rparr>,
        new_Transaction\<lparr>tx_date := \<lparr>date_year = 2024, date_month = 1, date_day = 2\<rparr>,
                         tx_name := ''C''\<rparr>]
     = [new_Transaction\<lparr>tx_date := \<lparr>date_year = 2023, date_month = 12, date_day = 28\<rparr>,
                         tx_name := ''A''\<rparr>,
        new_Transaction\<lparr>tx_date := \<lparr>date_year = 2024, date_month = 1, date_day = 2\<rparr>,
                         tx_name := ''B''\<rparr>,
        new_Transaction\<lparr>tx_date := \<lparr>date_year = 2024, date_month = 1, date_day = 2\<rparr>,
                         tx_name := ''C''\<rparr>]"
proof -
  let ?txs = "[new_Transaction\<lparr>tx_date := \<lparr>date_year = 2023, date_month = 12, date_day = 28\<rparr>,
                         tx_name := ''A''\<rparr>,
        new_Transaction\<lparr>tx_date := \<lparr>date_year = 2024, date_month = 1, date_day = 2\<rparr>,
                         tx_name := ''B''\<rparr>,
        new_Transaction\<lparr>tx_date := \<lparr>date_year = 2024, date_month = 1, date_day = 2\<rparr>,
                         tx_name := ''C''\<rparr>]"
  have s: "sorted (map dateKey ?txs)"
    by (simp add: dateKey_def new_Transaction_def less_eq_prod_def)
  from sortTransactions_idempotent_C9 [of ?txs] s show ?thesis by blast
qed

end
